theory Spec2Isabelle
  imports Main "HOL-Library.Sublist"
begin

section \<open>The world the release driver acts on\<close>

text \<open>
  The program is \<^verbatim>\<open>bin/publish.py\<close>, ten lines at module level:
  \<^verbatim>\<open>
  import os
  import shutil

  shutil.rmtree('dist', ignore_errors=True)
  os.system('tsc')
  shutil.copyfile('package.json', 'dist/package.json')

  os.system(' && '.join([
    'cd dist/',
    'npm publish --access public',
  ]))
  \<close>
  Everything it does is an effect on the file system or a child process, so the model is
  a state record passed from statement to statement. A path is its list of components
  from the file system root; a node is a regular file with its bytes, or a directory.
  The root directory is the entry at the empty path.
\<close>

type_synonym path = "string list"

datatype node = File string | Dir

type_synonym fs = "path \<rightharpoonup> node"

datatype os_error =
  FileNotFoundError | NotADirectoryError | IsADirectoryError | PermissionError | SameFileError

text \<open>
  The trace is the log of what the run did, in order: the three kinds of library call the
  driver makes, and every program a shell it spawned has started (argument vector and
  the working directory of that shell).
\<close>

datatype event =
  Rmtree string
  | System string
  | Copyfile string string
  | Exec "string list" path

text \<open>
  \<open>protected\<close> lists the entries the operating system refuses to unlink, to rmdir or
  to open for writing (EACCES, EPERM); \<open>cwd\<close> is the working directory of the driver
  process itself.
\<close>

record sys =
  files :: fs
  protected :: "path list"
  cwd :: path
  trace :: "event list"

text \<open>
  The external programs (\<^verbatim>\<open>tsc\<close>, \<^verbatim>\<open>npm\<close>) are not part of the repository: they are a
  parameter, any function from the argument vector, the working directory and the file
  system to an exit status and the file system the program leaves behind. A program
  that is not installed is the behaviour "status 127, nothing changed".
\<close>

type_synonym programs = "string list \<Rightarrow> path \<Rightarrow> fs \<Rightarrow> int \<times> fs"

definition new_events :: "sys \<Rightarrow> sys \<Rightarrow> event list" where
  "new_events s s' = drop (length (trace s)) (trace s')"

section \<open>Strings and paths\<close>

fun split_on :: "'a \<Rightarrow> 'a list \<Rightarrow> 'a list list" where
  "split_on c [] = [[]]"
| "split_on c (x # xs) =
     (if x = c then [] # split_on c xs
      else (case split_on c xs of [] \<Rightarrow> [[x]] | w # ws \<Rightarrow> (x # w) # ws))"

definition fields :: "'a \<Rightarrow> 'a list \<Rightarrow> 'a list list" where
  "fields c xs = filter (\<lambda>w. w \<noteq> []) (split_on c xs)"

text \<open>Python's \<^verbatim>\<open>sep.join(xs)\<close>.\<close>

fun join :: "string \<Rightarrow> string list \<Rightarrow> string" where
  "join sep [] = []"
| "join sep [x] = x"
| "join sep (x # y # ys) = x @ sep @ join sep (y # ys)"

text \<open>
  A path string is split at its slashes, empty components dropped (so \<^verbatim>\<open>dist/\<close> is
  \<^verbatim>\<open>dist\<close>); a relative one is resolved against a working directory. The components
  \<^verbatim>\<open>.\<close> and \<^verbatim>\<open>..\<close> and symbolic links are not interpreted: the driver uses none.
\<close>

definition components :: "string \<Rightarrow> path" where
  "components p = fields (CHR ''/'') p"

definition resolve :: "path \<Rightarrow> string \<Rightarrow> path" where
  "resolve c p = (if take 1 p = ''/'' then components p else c @ components p)"

section \<open>The library calls\<close>

subsection \<open>shutil.rmtree\<close>

text \<open>
  An entry cannot go while a protected entry exists at or below it: a protected entry
  itself fails with a permission error, and every directory above it is then not empty.
\<close>

definition blocked :: "sys \<Rightarrow> path \<Rightarrow> bool" where
  "blocked s p = list_ex (\<lambda>q. prefix p q \<and> files s q \<noteq> None) (protected s)"

text \<open>The errors the removal of the tree at \<open>d\<close> meets, first one first.\<close>

definition rmtree_errors :: "sys \<Rightarrow> path \<Rightarrow> os_error list" where
  "rmtree_errors s d =
     (case files s d of
        None \<Rightarrow> [FileNotFoundError]
      | Some (File b) \<Rightarrow> [NotADirectoryError]
      | Some Dir \<Rightarrow> (if blocked s d then [PermissionError] else []))"

text \<open>What is left when the removal goes on past every error.\<close>

definition rmtree_files :: "sys \<Rightarrow> path \<Rightarrow> fs" where
  "rmtree_files s d =
     (case files s d of
        Some Dir \<Rightarrow> (\<lambda>p. if prefix d p \<and> \<not> blocked s p then None else files s p)
      | _ \<Rightarrow> files s)"

text \<open>
  \<^verbatim>\<open>shutil.rmtree(path, ignore_errors)\<close>. With \<open>ignore_errors\<close> every error of the removal
  is dropped and the call returns; without it the first error is raised. (In that case
  the real call stops at the error, and which entries are gone by then depends on the
  directory order; the driver never takes that branch.)
\<close>

definition shutil_rmtree :: "string \<Rightarrow> bool \<Rightarrow> sys \<Rightarrow> (os_error + unit) \<times> sys" where
  "shutil_rmtree p ignore_errors s =
     (let d = resolve (cwd s) p;
          s' = s\<lparr>files := rmtree_files s d, trace := trace s @ [Rmtree p]\<rparr>
      in case rmtree_errors s d of
           [] \<Rightarrow> (Inr (), s')
         | e # es \<Rightarrow> if ignore_errors then (Inr (), s') else (Inl e, s'))"

subsection \<open>shutil.copyfile\<close>

text \<open>
  \<^verbatim>\<open>shutil.copyfile(src, dst)\<close>: refuses to copy a file onto itself, opens \<open>src\<close> for
  reading, then opens \<open>dst\<close> for writing (created or truncated), copies the bytes and
  returns \<open>dst\<close>. It creates no directory, and a protected file at \<open>dst\<close> is not opened.

  The file system of the model has no links and no read permissions, so the errors of
  the real call that come from those (a destination that is a link to the source, a
  dangling link, an unreadable source) are not among the branches. What is proved of
  the call is when it must fail and what it has done when it has succeeded, never a
  condition under which it must succeed.
\<close>

definition shutil_copyfile :: "string \<Rightarrow> string \<Rightarrow> sys \<Rightarrow> (os_error + string) \<times> sys" where
  "shutil_copyfile src dst s =
     (let sp = resolve (cwd s) src;
          dp = resolve (cwd s) dst;
          s0 = s\<lparr>trace := trace s @ [Copyfile src dst]\<rparr>
      in if sp = dp \<and> files s sp \<noteq> None then (Inl SameFileError, s0)
         else (case files s sp of
            None \<Rightarrow> (Inl FileNotFoundError, s0)
          | Some Dir \<Rightarrow> (Inl IsADirectoryError, s0)
          | Some (File b) \<Rightarrow>
              (case files s (butlast dp) of
                 None \<Rightarrow> (Inl FileNotFoundError, s0)
               | Some (File x) \<Rightarrow> (Inl NotADirectoryError, s0)
               | Some Dir \<Rightarrow>
                   (case files s dp of
                      Some Dir \<Rightarrow> (Inl IsADirectoryError, s0)
                    | Some (File y) \<Rightarrow>
                        (if dp \<in> set (protected s) then (Inl PermissionError, s0)
                         else (Inr dst, s0\<lparr>files := (files s)(dp \<mapsto> File b)\<rparr>))
                    | None \<Rightarrow> (Inr dst, s0\<lparr>files := (files s)(dp \<mapsto> File b)\<rparr>)))))"

subsection \<open>os.system\<close>

text \<open>
  \<^verbatim>\<open>os.system(cmd)\<close> hands the command line to a child shell and waits for it. The shell
  is modelled as far as the driver uses it: words separated by blanks, simple commands
  joined by \<^verbatim>\<open>&&\<close>, the builtin \<^verbatim>\<open>cd DIR\<close>, and programs. The shell has a working
  directory of its own, which starts as the driver's. A \<^verbatim>\<open>cd\<close> that fails has status 1
  (the number differs between shells; that it is not 0 is what counts), and so has a
  \<^verbatim>\<open>cd\<close> with no operand or several, which the driver does not use.
\<close>

fun sh_simple :: "programs \<Rightarrow> string list \<Rightarrow> path \<times> sys \<Rightarrow> int \<times> path \<times> sys" where
  "sh_simple env [] (c, s) = (0, c, s)"
| "sh_simple env (w # ws) (c, s) =
     (if w = ''cd'' then
        (case ws of
           [d] \<Rightarrow> (if files s (resolve c d) = Some Dir then (0, resolve c d, s) else (1, c, s))
         | _ \<Rightarrow> (1, c, s))
      else (case env (w # ws) c (files s) of
              (rc, fs') \<Rightarrow> (rc, c, s\<lparr>files := fs', trace := trace s @ [Exec (w # ws) c]\<rparr>)))"

text \<open>\<^verbatim>\<open>a && b\<close>: \<open>b\<close> runs only when \<open>a\<close> has exit status 0.\<close>

fun sh_and_list :: "programs \<Rightarrow> string list list \<Rightarrow> path \<times> sys \<Rightarrow> int \<times> path \<times> sys" where
  "sh_and_list env [] st = (0, st)"
| "sh_and_list env [c] st = sh_simple env c st"
| "sh_and_list env (c # d # cs) st =
     (case sh_simple env c st of
        (rc, st') \<Rightarrow> if rc = 0 then sh_and_list env (d # cs) st' else (rc, st'))"

definition sh :: "programs \<Rightarrow> string \<Rightarrow> path \<times> sys \<Rightarrow> int \<times> path \<times> sys" where
  "sh env cmd st = sh_and_list env (split_on ''&&'' (fields (CHR '' '') cmd)) st"

text \<open>
  The call returns the status of the shell and never raises on it. The shell's working
  directory is dropped with the shell: the \<open>cwd\<close> field of the driver is not written.
\<close>

definition os_system :: "programs \<Rightarrow> string \<Rightarrow> sys \<Rightarrow> (os_error + int) \<times> sys" where
  "os_system env cmd s =
     (case sh env cmd (cwd s, s\<lparr>trace := trace s @ [System cmd]\<rparr>) of
        (rc, c, s') \<Rightarrow> (Inr rc, s'))"

section \<open>The driver\<close>

text \<open>
  One statement after the other; the value of an expression statement is dropped, and
  an exception ends the script where it is raised.
\<close>

definition seq ::
  "(sys \<Rightarrow> (os_error + 'a) \<times> sys) \<Rightarrow> (sys \<Rightarrow> (os_error + 'b) \<times> sys) \<Rightarrow> sys \<Rightarrow> (os_error + 'b) \<times> sys"
where
  "seq f g s = (case f s of (Inl e, s') \<Rightarrow> (Inl e, s') | (Inr v, s') \<Rightarrow> g s')"

definition step_remove :: "sys \<Rightarrow> (os_error + unit) \<times> sys" where
  "step_remove = shutil_rmtree ''dist'' True"

definition step_build :: "programs \<Rightarrow> sys \<Rightarrow> (os_error + int) \<times> sys" where
  "step_build env = os_system env ''tsc''"

definition step_copy :: "sys \<Rightarrow> (os_error + string) \<times> sys" where
  "step_copy = shutil_copyfile ''package.json'' ''dist/package.json''"

definition publish_cmd :: string where
  "publish_cmd = join '' && '' [''cd dist/'', ''npm publish --access public'']"

definition step_publish :: "programs \<Rightarrow> sys \<Rightarrow> (os_error + int) \<times> sys" where
  "step_publish env = os_system env publish_cmd"

definition publish_py :: "programs \<Rightarrow> sys \<Rightarrow> (os_error + int) \<times> sys" where
  "publish_py env = seq step_remove (seq (step_build env) (seq step_copy (step_publish env)))"

text \<open>The state in which the copy statement starts: after the removal and the build.\<close>

definition before_copy :: "programs \<Rightarrow> sys \<Rightarrow> sys" where
  "before_copy env s = snd (seq step_remove (step_build env) s)"

section \<open>Notions the properties are stated with\<close>

text \<open>The argument vector the shell makes of \<^verbatim>\<open>npm publish --access public\<close>.\<close>

definition npm_argv :: "string list" where
  "npm_argv = [''npm'', ''publish'', ''--access'', ''public'']"

text \<open>The program \<open>argv\<close>, run in \<open>c\<close>, leaves the entry at \<open>p\<close> as it finds it.\<close>

definition keeps :: "programs \<Rightarrow> string list \<Rightarrow> path \<Rightarrow> path \<Rightarrow> bool" where
  "keeps env argv c p = (\<forall>fs. snd (env argv c fs) p = fs p)"

text \<open>The same programs, but \<^verbatim>\<open>tsc\<close> exits with status \<open>k\<close>.\<close>

definition with_build_status :: "int \<Rightarrow> programs \<Rightarrow> programs" where
  "with_build_status k env argv c fs =
     (if argv = [''tsc''] then (k, snd (env argv c fs)) else env argv c fs)"

text \<open>The events that are calls of the driver itself.\<close>

fun is_call :: "event \<Rightarrow> bool" where
  "is_call (Exec a c) = False"
| "is_call e = True"

definition driver_calls :: "event list \<Rightarrow> event list" where
  "driver_calls tr = filter is_call tr"

section \<open>Concrete projects and toolchains\<close>

text \<open>The manifest of the example run.\<close>

definition example_manifest :: string where
  \<open>example_manifest = ''{"name":"x","version":"1.0.0"}''\<close>

text \<open>A project at \<^verbatim>\<open>/proj\<close> with its manifest and no output directory.\<close>

definition fresh_checkout :: sys where
  "fresh_checkout =
     \<lparr>files = [[] \<mapsto> Dir, [''proj''] \<mapsto> Dir,
               [''proj'', ''package.json''] \<mapsto> File example_manifest],
      protected = [], cwd = [''proj''], trace = []\<rparr>"

text \<open>The same project without a manifest.\<close>

definition no_manifest :: sys where
  "no_manifest =
     \<lparr>files = [[] \<mapsto> Dir, [''proj''] \<mapsto> Dir],
      protected = [], cwd = [''proj''], trace = []\<rparr>"

text \<open>The project with an output directory of an earlier build whose file cannot be unlinked.\<close>

definition locked_output :: sys where
  "locked_output =
     \<lparr>files = [[] \<mapsto> Dir, [''proj''] \<mapsto> Dir,
               [''proj'', ''package.json''] \<mapsto> File example_manifest,
               [''proj'', ''dist''] \<mapsto> Dir,
               [''proj'', ''dist'', ''old.js''] \<mapsto> File ''old''],
      protected = [[''proj'', ''dist'', ''old.js'']], cwd = [''proj''], trace = []\<rparr>"

text \<open>A compiler that writes \<^verbatim>\<open>dist/index.js\<close>, and a registry client that changes nothing.\<close>

definition toolchain :: programs where
  "toolchain argv c fs =
     (if argv = [''tsc'']
      then (0, fs(c @ [''dist''] \<mapsto> Dir, c @ [''dist'', ''index.js''] \<mapsto> File ''js''))
      else (0, fs))"

text \<open>A compiler whose output tree has a directory named \<^verbatim>\<open>package.json\<close>.\<close>

definition nested_toolchain :: programs where
  "nested_toolchain argv c fs =
     (if argv = [''tsc'']
      then (0, fs(c @ [''dist''] \<mapsto> Dir, c @ [''dist'', ''package.json''] \<mapsto> Dir,
                  c @ [''dist'', ''package.json'', ''index.js''] \<mapsto> File ''js''))
      else (0, fs))"

section \<open>What each statement does\<close>

lemma resolve_dist: "resolve c ''dist'' = c @ [''dist'']"
  by (simp add: resolve_def components_def fields_def)

lemma resolve_dist_slash: "resolve c ''dist/'' = c @ [''dist'']"
  by (simp add: resolve_def components_def fields_def)

lemma resolve_manifest: "resolve c ''package.json'' = c @ [''package.json'']"
  by (simp add: resolve_def components_def fields_def)

lemma resolve_dist_manifest: "resolve c ''dist/package.json'' = c @ [''dist'', ''package.json'']"
  by (simp add: resolve_def components_def fields_def)

lemma publish_cmd_text: "publish_cmd = ''cd dist/ && npm publish --access public''"
  by (simp add: publish_cmd_def)

lemma parse_build: "split_on ''&&'' (fields (CHR '' '') ''tsc'') = [[''tsc'']]"
  by (simp add: fields_def)

lemma parse_publish:
  "split_on ''&&'' (fields (CHR '' '') publish_cmd) = [[''cd'', ''dist/''], npm_argv]"
  by (simp add: fields_def publish_cmd_def npm_argv_def)

lemma new_events_append: "trace s' = trace s @ es \<Longrightarrow> new_events s s' = es"
  by (simp add: new_events_def)

lemma step_remove_eq:
  "step_remove s =
     (Inr (), s\<lparr>files := rmtree_files s (cwd s @ [''dist'']), trace := trace s @ [Rmtree ''dist'']\<rparr>)"
  by (simp add: step_remove_def shutil_rmtree_def resolve_dist Let_def split: list.splits)

lemma step_build_eq:
  "step_build env s =
     (Inr (fst (env [''tsc''] (cwd s) (files s))),
      s\<lparr>files := snd (env [''tsc''] (cwd s) (files s)),
        trace := trace s @ [System ''tsc'', Exec [''tsc''] (cwd s)]\<rparr>)"
  by (simp add: step_build_def os_system_def sh_def parse_build split: prod.splits)

lemma step_publish_eq:
  "step_publish env s =
     (if files s (cwd s @ [''dist'']) = Some Dir
      then (Inr (fst (env npm_argv (cwd s @ [''dist'']) (files s))),
            s\<lparr>files := snd (env npm_argv (cwd s @ [''dist'']) (files s)),
              trace := trace s @ [System publish_cmd, Exec npm_argv (cwd s @ [''dist''])]\<rparr>)
      else (Inr 1, s\<lparr>trace := trace s @ [System publish_cmd]\<rparr>))"
  by (simp add: step_publish_def os_system_def sh_def parse_publish resolve_dist_slash npm_argv_def split: prod.splits)

lemma before_copy_eq:
  "before_copy env s =
     s\<lparr>files := snd (env [''tsc''] (cwd s) (rmtree_files s (cwd s @ [''dist'']))),
       trace := trace s @ [Rmtree ''dist'', System ''tsc'', Exec [''tsc''] (cwd s)]\<rparr>"
  by (simp add: before_copy_def seq_def step_remove_eq step_build_eq)

lemma step_copy_eq:
  "step_copy s =
     (case files s (cwd s @ [''package.json'']) of
        None \<Rightarrow> (Inl FileNotFoundError, s\<lparr>trace := trace s @ [Copyfile ''package.json'' ''dist/package.json'']\<rparr>)
      | Some Dir \<Rightarrow> (Inl IsADirectoryError, s\<lparr>trace := trace s @ [Copyfile ''package.json'' ''dist/package.json'']\<rparr>)
      | Some (File b) \<Rightarrow>
          (case files s (cwd s @ [''dist'']) of
             None \<Rightarrow> (Inl FileNotFoundError, s\<lparr>trace := trace s @ [Copyfile ''package.json'' ''dist/package.json'']\<rparr>)
           | Some (File x) \<Rightarrow> (Inl NotADirectoryError, s\<lparr>trace := trace s @ [Copyfile ''package.json'' ''dist/package.json'']\<rparr>)
           | Some Dir \<Rightarrow>
               (if files s (cwd s @ [''dist'', ''package.json'']) = Some Dir
                then (Inl IsADirectoryError, s\<lparr>trace := trace s @ [Copyfile ''package.json'' ''dist/package.json'']\<rparr>)
                else if files s (cwd s @ [''dist'', ''package.json'']) \<noteq> None \<and>
                        cwd s @ [''dist'', ''package.json''] \<in> set (protected s)
                then (Inl PermissionError, s\<lparr>trace := trace s @ [Copyfile ''package.json'' ''dist/package.json'']\<rparr>)
                else (Inr ''dist/package.json'',
                      s\<lparr>trace := trace s @ [Copyfile ''package.json'' ''dist/package.json''],
                        files := (files s)(cwd s @ [''dist'', ''package.json''] \<mapsto> File b)\<rparr>))))"
  by (simp add: step_copy_def shutil_copyfile_def resolve_manifest resolve_dist_manifest Let_def
      butlast_append split: option.splits node.splits)

lemma publish_py_eq:
  "publish_py env s =
     (case fst (step_copy (before_copy env s)) of
        Inl e \<Rightarrow> (Inl e, snd (step_copy (before_copy env s)))
      | Inr v \<Rightarrow> step_publish env (snd (step_copy (before_copy env s))))"
  by (simp add: publish_py_def before_copy_def seq_def step_remove_eq step_build_eq split: prod.splits sum.splits)

lemma step_copy_cwd: "cwd (snd (step_copy s)) = cwd s"
  by (simp add: step_copy_eq split: option.splits node.splits)

lemma step_copy_trace:
  "trace (snd (step_copy s)) = trace s @ [Copyfile ''package.json'' ''dist/package.json'']"
  by (simp add: step_copy_eq split: option.splits node.splits)

lemma step_copy_ok:
  "fst (step_copy s) = Inr v \<Longrightarrow>
     \<exists>b. files s (cwd s @ [''package.json'']) = Some (File b) \<and>
         files s (cwd s @ [''dist'']) = Some Dir \<and>
         files (snd (step_copy s)) = (files s)(cwd s @ [''dist'', ''package.json''] \<mapsto> File b)"
  by (auto simp add: step_copy_eq split: option.splits node.splits if_splits)

lemma step_copy_ok_needs:
  "fst (step_copy s) = Inr v \<Longrightarrow>
     v = ''dist/package.json'' \<and> files s (cwd s @ [''dist'', ''package.json'']) \<noteq> Some Dir"
  by (auto simp add: step_copy_eq split: option.splits node.splits if_splits)

lemma before_copy_cwd: "cwd (before_copy env s) = cwd s"
  by (simp add: before_copy_eq)

text \<open>The whole trace of a run.\<close>

lemma publish_py_trace:
  "new_events s (snd (publish_py env s)) =
     [Rmtree ''dist'', System ''tsc'', Exec [''tsc''] (cwd s), Copyfile ''package.json'' ''dist/package.json'']
     @ (case fst (publish_py env s) of
          Inl e \<Rightarrow> []
        | Inr rc \<Rightarrow> [System publish_cmd, Exec npm_argv (cwd s @ [''dist''])])"
proof (cases "fst (step_copy (before_copy env s))")
  case (Inl e)
  then have r: "publish_py env s = (Inl e, snd (step_copy (before_copy env s)))"
    by (simp add: publish_py_eq)
  show ?thesis
    by (rule new_events_append) (simp add: r step_copy_trace before_copy_eq)
next
  case (Inr v)
  from step_copy_ok [OF Inr] obtain b where
    d: "files (before_copy env s) (cwd s @ [''dist'']) = Some Dir" and
    f: "files (snd (step_copy (before_copy env s))) =
          (files (before_copy env s))(cwd s @ [''dist'', ''package.json''] \<mapsto> File b)"
    by (auto simp add: before_copy_cwd)
  have r: "publish_py env s = step_publish env (snd (step_copy (before_copy env s)))"
    using Inr by (simp add: publish_py_eq)
  have d': "files (snd (step_copy (before_copy env s))) (cwd s @ [''dist'']) = Some Dir"
    by (simp add: f d)
  show ?thesis
    by (rule new_events_append)
      (simp add: r step_publish_eq d' step_copy_cwd before_copy_cwd step_copy_trace, simp add: before_copy_eq)
qed

lemma before_copy_manifest:
  "keeps env [''tsc''] (cwd s) (cwd s @ [''package.json'']) \<Longrightarrow>
     files (before_copy env s) (cwd s @ [''package.json'']) = files s (cwd s @ [''package.json''])"
  by (simp add: before_copy_eq keeps_def rmtree_files_def split: option.splits node.splits)

lemma run_ok_files:
  assumes ok: "fst (publish_py env s) = Inr rc"
  shows "\<exists>b. files (before_copy env s) (cwd s @ [''package.json'']) = Some (File b) \<and>
             files (snd (publish_py env s)) =
               snd (env npm_argv (cwd s @ [''dist''])
                 ((files (before_copy env s))(cwd s @ [''dist'', ''package.json''] \<mapsto> File b)))"
proof -
  from ok obtain v where v: "fst (step_copy (before_copy env s)) = Inr v"
    by (cases "fst (step_copy (before_copy env s))") (simp_all add: publish_py_eq)
  from step_copy_ok [OF v] obtain b where
    m: "files (before_copy env s) (cwd s @ [''package.json'']) = Some (File b)" and
    d: "files (before_copy env s) (cwd s @ [''dist'']) = Some Dir" and
    f: "files (snd (step_copy (before_copy env s))) =
          (files (before_copy env s))(cwd s @ [''dist'', ''package.json''] \<mapsto> File b)"
    by (auto simp add: before_copy_cwd)
  have r: "publish_py env s = step_publish env (snd (step_copy (before_copy env s)))"
    using v by (simp add: publish_py_eq)
  have d': "files (snd (step_copy (before_copy env s))) (cwd s @ [''dist'']) = Some Dir"
    by (simp add: f d)
  have "files (snd (publish_py env s)) =
          snd (env npm_argv (cwd s @ [''dist''])
            ((files (before_copy env s))(cwd s @ [''dist'', ''package.json''] \<mapsto> File b)))"
    using d by (simp add: r step_publish_eq step_copy_cwd before_copy_cwd f)
  with m show ?thesis by blast
qed

lemma publish_py_cwd: "cwd (snd (publish_py env s)) = cwd s"
  by (simp add: publish_py_eq step_publish_eq step_copy_cwd before_copy_cwd split: sum.splits)

lemma run_raises_iff:
  "(fst (publish_py env s) = Inl e) = (fst (step_copy (before_copy env s)) = Inl e)"
  by (simp add: publish_py_eq step_publish_eq split: sum.splits)

lemma build_status_ignored: "publish_py (with_build_status k env) s = publish_py env s"
proof -
  have b: "before_copy (with_build_status k env) s = before_copy env s"
    by (simp add: before_copy_eq with_build_status_def)
  have p: "step_publish (with_build_status k env) t = step_publish env t" for t
    by (simp add: step_publish_eq with_build_status_def npm_argv_def)
  show ?thesis
    by (simp add: publish_py_eq b p split: sum.splits)
qed

section \<open>The claims\<close>

text \<open>
  C1. After a run in which every step succeeds, the output directory holds a file with the
  name and the bytes of the manifest of the project root. A run succeeds here when no
  statement raises (the exit statuses play no part). The publish program runs last, so
  the property is about a registry client that leaves both manifests as they are. The
  witness is the example run: a manifest \<^verbatim>\<open>{"name":"x","version":"1.0.0"}\<close>.
\<close>

theorem manifest_copied_by_successful_run:
  assumes ok: "fst (publish_py env s) = Inr rc"
    and k1: "keeps env npm_argv (cwd s @ [''dist'']) (cwd s @ [''package.json''])"
    and k2: "keeps env npm_argv (cwd s @ [''dist'']) (cwd s @ [''dist'', ''package.json''])"
  shows "\<exists>b. files (snd (publish_py env s)) (cwd s @ [''package.json'']) = Some (File b) \<and>
             files (snd (publish_py env s)) (cwd s @ [''dist'', ''package.json'']) = Some (File b)"
proof -
  from run_ok_files [OF ok] obtain b where
    m: "files (before_copy env s) (cwd s @ [''package.json'']) = Some (File b)" and
    f: "files (snd (publish_py env s)) =
          snd (env npm_argv (cwd s @ [''dist''])
            ((files (before_copy env s))(cwd s @ [''dist'', ''package.json''] \<mapsto> File b)))"
    by blast
  have "files (snd (publish_py env s)) (cwd s @ [''package.json'']) = Some (File b)"
    using k1 m by (simp add: f keeps_def)
  moreover have "files (snd (publish_py env s)) (cwd s @ [''dist'', ''package.json'']) = Some (File b)"
    using k2 by (simp add: f keeps_def)
  ultimately show ?thesis by blast
qed

lemma toolchain_keeps: "keeps toolchain npm_argv c p"
  by (simp add: keeps_def toolchain_def npm_argv_def)

lemma fresh_run_ok: "fst (publish_py toolchain fresh_checkout) = Inr 0"
  by (simp add: publish_py_eq before_copy_eq step_copy_eq step_publish_eq fresh_checkout_def
      toolchain_def rmtree_files_def npm_argv_def)

lemma fresh_run_files:
  "files (snd (publish_py toolchain fresh_checkout)) [''proj'', ''dist'', ''package.json'']
     = Some (File example_manifest)"
  by (simp add: publish_py_eq before_copy_eq step_copy_eq step_publish_eq fresh_checkout_def
      toolchain_def rmtree_files_def npm_argv_def)

theorem manifest_copied_by_successful_run_witness:
  \<open>fst (publish_py toolchain fresh_checkout) = Inr 0 \<and>
   keeps toolchain npm_argv [''proj'', ''dist''] [''proj'', ''package.json''] \<and>
   keeps toolchain npm_argv [''proj'', ''dist''] [''proj'', ''dist'', ''package.json''] \<and>
   files fresh_checkout [''proj'', ''package.json''] = Some (File ''{"name":"x","version":"1.0.0"}'') \<and>
   files (snd (publish_py toolchain fresh_checkout)) [''proj'', ''package.json'']
     = Some (File ''{"name":"x","version":"1.0.0"}'') \<and>
   files (snd (publish_py toolchain fresh_checkout)) [''proj'', ''dist'', ''package.json'']
     = Some (File ''{"name":"x","version":"1.0.0"}'')\<close>
proof -
  have c: "cwd fresh_checkout = [''proj'']"
    by (simp add: fresh_checkout_def)
  have m: "files fresh_checkout [''proj'', ''package.json''] = Some (File example_manifest)"
    by (simp add: fresh_checkout_def)
  from manifest_copied_by_successful_run [OF fresh_run_ok toolchain_keeps toolchain_keeps]
  obtain b where
    "files (snd (publish_py toolchain fresh_checkout)) [''proj'', ''package.json''] = Some (File b)"
    "files (snd (publish_py toolchain fresh_checkout)) [''proj'', ''dist'', ''package.json''] = Some (File b)"
    by (auto simp add: c)
  then show ?thesis
    using fresh_run_ok fresh_run_files m toolchain_keeps by (simp add: example_manifest_def)
qed

text \<open>
  C2 as stated: every run executes exactly the four steps. In a project without a
  manifest the copy raises, and the run has made three calls; the publish command line
  was never handed to a shell.
\<close>

theorem four_steps_counterexample:
  "fst (publish_py toolchain no_manifest) = Inl FileNotFoundError \<and>
   driver_calls (new_events no_manifest (snd (publish_py toolchain no_manifest)))
     = [Rmtree ''dist'', System ''tsc'', Copyfile ''package.json'' ''dist/package.json''] \<and>
   System publish_cmd \<notin> set (new_events no_manifest (snd (publish_py toolchain no_manifest)))"
proof -
  have r: "fst (publish_py toolchain no_manifest) = Inl FileNotFoundError"
    by (simp add: publish_py_eq before_copy_eq step_copy_eq no_manifest_def toolchain_def
        rmtree_files_def)
  show ?thesis
    by (simp add: publish_py_trace r driver_calls_def publish_cmd_text)
qed

text \<open>
  C2, amended. The calls of a run are always the same ones in the same order: remove,
  build, copy, and then publish unless the copy has raised. The program of each shell
  has run before the next call starts, and nothing but an exception of the copy
  statement ends the sequence early: the run raises exactly when the copy does.
\<close>

theorem steps_in_fixed_order:
  "driver_calls (new_events s (snd (publish_py env s))) =
     (case fst (publish_py env s) of
        Inl e \<Rightarrow> [Rmtree ''dist'', System ''tsc'', Copyfile ''package.json'' ''dist/package.json'']
      | Inr rc \<Rightarrow> [Rmtree ''dist'', System ''tsc'', Copyfile ''package.json'' ''dist/package.json'',
                   System publish_cmd]) \<and>
   new_events s (snd (publish_py env s)) =
     [Rmtree ''dist'', System ''tsc'', Exec [''tsc''] (cwd s),
      Copyfile ''package.json'' ''dist/package.json'']
     @ (case fst (publish_py env s) of
          Inl e \<Rightarrow> []
        | Inr rc \<Rightarrow> [System publish_cmd, Exec npm_argv (cwd s @ [''dist''])]) \<and>
   (\<exists>e. fst (publish_py env s) = Inl e) = (\<exists>e. fst (step_copy (before_copy env s)) = Inl e)"
proof -
  have "driver_calls (new_events s (snd (publish_py env s))) =
     (case fst (publish_py env s) of
        Inl e \<Rightarrow> [Rmtree ''dist'', System ''tsc'', Copyfile ''package.json'' ''dist/package.json'']
      | Inr rc \<Rightarrow> [Rmtree ''dist'', System ''tsc'', Copyfile ''package.json'' ''dist/package.json'',
                   System publish_cmd])"
    by (simp add: publish_py_trace driver_calls_def split: sum.splits)
  then show ?thesis
    by (simp only: publish_py_trace run_raises_iff simp_thms)
qed

text \<open>
  C3. A failure of the copy statement is fatal. When the manifest or the output
  directory is missing as the copy starts, the copy raises; and whenever the copy
  raises, the run ends with that error, the publish command line is never handed to a
  shell and the publish program is never started.
\<close>

theorem copy_failure_halts:
  "(files (before_copy env s) (cwd s @ [''package.json'']) = None \<or>
    files (before_copy env s) (cwd s @ [''dist'']) = None
      \<longrightarrow> (\<exists>e. fst (step_copy (before_copy env s)) = Inl e)) \<and>
   (\<forall>e. fst (step_copy (before_copy env s)) = Inl e \<longrightarrow>
      fst (publish_py env s) = Inl e \<and>
      System publish_cmd \<notin> set (new_events s (snd (publish_py env s))) \<and>
      (\<forall>c. Exec npm_argv c \<notin> set (new_events s (snd (publish_py env s)))))"
proof -
  have a: "files (before_copy env s) (cwd s @ [''package.json'']) = None \<or>
      files (before_copy env s) (cwd s @ [''dist'']) = None
      \<longrightarrow> (\<exists>e. fst (step_copy (before_copy env s)) = Inl e)"
    by (auto simp add: step_copy_eq before_copy_cwd split: option.splits node.splits)
  have b: "fst (publish_py env s) = Inl e \<and>
      System publish_cmd \<notin> set (new_events s (snd (publish_py env s))) \<and>
      (\<forall>c. Exec npm_argv c \<notin> set (new_events s (snd (publish_py env s))))"
    if "fst (step_copy (before_copy env s)) = Inl e" for e
  proof -
    from that have r: "fst (publish_py env s) = Inl e"
      by (simp add: run_raises_iff)
    show ?thesis
      by (simp add: publish_py_trace r npm_argv_def publish_cmd_text)
  qed
  from a b show ?thesis by blast
qed

theorem copy_failure_halts_witness:
  "files (before_copy toolchain no_manifest) [''proj'', ''package.json''] = None \<and>
   fst (step_copy (before_copy toolchain no_manifest)) = Inl FileNotFoundError \<and>
   fst (publish_py toolchain no_manifest) = Inl FileNotFoundError \<and>
   System publish_cmd \<notin> set (new_events no_manifest (snd (publish_py toolchain no_manifest))) \<and>
   Exec npm_argv [''proj'', ''dist''] \<notin> set (new_events no_manifest (snd (publish_py toolchain no_manifest)))"
proof -
  have m: "files (before_copy toolchain no_manifest) [''proj'', ''package.json''] = None"
    by (simp add: before_copy_eq no_manifest_def toolchain_def rmtree_files_def)
  have c: "fst (step_copy (before_copy toolchain no_manifest)) = Inl FileNotFoundError"
    by (simp add: before_copy_eq step_copy_eq no_manifest_def toolchain_def rmtree_files_def)
  from copy_failure_halts [of toolchain no_manifest] c
  have "fst (publish_py toolchain no_manifest) = Inl FileNotFoundError \<and>
      System publish_cmd \<notin> set (new_events no_manifest (snd (publish_py toolchain no_manifest))) \<and>
      (\<forall>c. Exec npm_argv c \<notin> set (new_events no_manifest (snd (publish_py toolchain no_manifest))))"
    by blast
  with m c show ?thesis by blast
qed

text \<open>
  C4. Whatever exit status \<open>k\<close> the build command returns, the run is the same run, final
  state and result: the status reaches the driver as the value of the call and is
  dropped there, and the copy statement is the next thing that happens. In the example
  the compiler writes its output and exits with status 2: the manifest is copied and
  the package published as after status 0.
\<close>

theorem build_status_not_inspected:
  "publish_py (with_build_status k env) s = publish_py env s \<and>
   fst (step_build (with_build_status k env) s) = Inr k \<and>
   take 4 (new_events s (snd (publish_py (with_build_status k env) s))) =
     [Rmtree ''dist'', System ''tsc'', Exec [''tsc''] (cwd s),
      Copyfile ''package.json'' ''dist/package.json'']"
  by (simp add: build_status_ignored publish_py_trace) (simp add: step_build_eq with_build_status_def)

theorem build_status_not_inspected_witness:
  "fst (step_build (with_build_status 2 toolchain) fresh_checkout) = Inr 2 \<and>
   fst (publish_py (with_build_status 2 toolchain) fresh_checkout) = Inr 0 \<and>
   files (snd (publish_py (with_build_status 2 toolchain) fresh_checkout))
       [''proj'', ''dist'', ''package.json'']
     = Some (File example_manifest) \<and>
   take 4 (new_events fresh_checkout (snd (publish_py (with_build_status 2 toolchain) fresh_checkout))) =
     [Rmtree ''dist'', System ''tsc'', Exec [''tsc''] [''proj''],
      Copyfile ''package.json'' ''dist/package.json'']"
proof -
  have c: "cwd fresh_checkout = [''proj'']"
    by (simp add: fresh_checkout_def)
  note w = build_status_not_inspected [of 2 toolchain fresh_checkout, unfolded c]
  from w
  have e: "publish_py (with_build_status 2 toolchain) fresh_checkout = publish_py toolchain fresh_checkout"
    by (rule conjunct1)
  from w have b: "fst (step_build (with_build_status 2 toolchain) fresh_checkout) = Inr 2"
    by blast
  from w
  have t: "take 4 (new_events fresh_checkout (snd (publish_py (with_build_status 2 toolchain) fresh_checkout))) =
      [Rmtree ''dist'', System ''tsc'', Exec [''tsc''] [''proj''],
       Copyfile ''package.json'' ''dist/package.json'']"
    by blast
  have r: "fst (publish_py (with_build_status 2 toolchain) fresh_checkout) = Inr 0"
    by (simp only: e fresh_run_ok)
  have f: "files (snd (publish_py (with_build_status 2 toolchain) fresh_checkout))
       [''proj'', ''dist'', ''package.json''] = Some (File example_manifest)"
    by (simp only: e fresh_run_files)
  from b r f t show ?thesis
    by (intro conjI)
qed

text \<open>
  C5 as stated: a removal failure other than "does not exist" is surfaced. With a file
  in the output directory that cannot be unlinked, the removal meets a permission error,
  which \<open>ignore_errors = False\<close> would raise; the driver's call returns normally, the
  file is still there, and the run goes on to its end.
\<close>

theorem removal_error_surfaced_counterexample:
  "rmtree_errors locked_output [''proj'', ''dist''] = [PermissionError] \<and>
   fst (shutil_rmtree ''dist'' False locked_output) = Inl PermissionError \<and>
   fst (step_remove locked_output) = Inr () \<and>
   files (snd (step_remove locked_output)) [''proj'', ''dist'', ''old.js''] = Some (File ''old'') \<and>
   fst (publish_py toolchain locked_output) = Inr 0"
proof -
  have e: "rmtree_errors locked_output [''proj'', ''dist''] = [PermissionError]"
    by (simp add: rmtree_errors_def locked_output_def blocked_def)
  have c: "cwd locked_output = [''proj'']"
    by (simp add: locked_output_def)
  have x: "fst (shutil_rmtree ''dist'' False locked_output) = Inl PermissionError"
    by (simp add: shutil_rmtree_def resolve_dist c e Let_def)
  have f: "files (snd (step_remove locked_output)) [''proj'', ''dist'', ''old.js''] = Some (File ''old'')"
    by (simp add: step_remove_eq rmtree_files_def locked_output_def blocked_def)
  have r: "fst (publish_py toolchain locked_output) = Inr 0"
    by (simp add: publish_py_eq before_copy_eq step_copy_eq step_publish_eq locked_output_def
        toolchain_def rmtree_files_def npm_argv_def blocked_def)
  from e x f r show ?thesis
    by (simp add: step_remove_eq)
qed

text \<open>
  C5, amended. The removal statement suppresses every error of the removal, whatever it
  is: it never raises, it leaves what could not be removed, and the build is the next
  call of the run.
\<close>

theorem removal_errors_all_suppressed:
  "fst (step_remove s) = Inr () \<and>
   fst (shutil_rmtree ''dist'' True s) = Inr () \<and>
   files (snd (step_remove s)) = rmtree_files s (cwd s @ [''dist'']) \<and>
   take 2 (new_events s (snd (publish_py env s))) = [Rmtree ''dist'', System ''tsc'']"
  using step_remove_eq [of s]
  by (simp add: publish_py_trace run_raises_iff step_remove_def)

text \<open>
  C6. When there is no output directory, the removal meets "does not exist", raises
  nothing and changes nothing, and the run goes on to the build.
\<close>

theorem removal_tolerates_absence:
  assumes "files s (cwd s @ [''dist'']) = None"
  shows "rmtree_errors s (cwd s @ [''dist'']) = [FileNotFoundError] \<and>
    fst (step_remove s) = Inr () \<and>
    files (snd (step_remove s)) = files s \<and>
    take 3 (new_events s (snd (publish_py env s))) =
      [Rmtree ''dist'', System ''tsc'', Exec [''tsc''] (cwd s)]"
  using assms
  by (simp add: step_remove_eq rmtree_files_def rmtree_errors_def publish_py_trace)

theorem removal_tolerates_absence_witness:
  "files fresh_checkout (cwd fresh_checkout @ [''dist'']) = None \<and>
   fst (step_remove fresh_checkout) = Inr () \<and>
   take 3 (new_events fresh_checkout (snd (publish_py toolchain fresh_checkout))) =
      [Rmtree ''dist'', System ''tsc'', Exec [''tsc''] [''proj'']]"
proof -
  have h: "files fresh_checkout (cwd fresh_checkout @ [''dist'']) = None"
    by (simp add: fresh_checkout_def)
  have c: "cwd fresh_checkout = [''proj'']"
    by (simp add: fresh_checkout_def)
  from removal_tolerates_absence [OF h, of toolchain] h show ?thesis
    by (simp add: c)
qed

text \<open>
  C7 as stated: the copy fails exactly when the manifest is missing or the output
  directory was not created by the build. Here the manifest is there and the build has
  created the output directory, and the copy fails all the same: the build has left a
  directory at \<^verbatim>\<open>dist/package.json\<close>, which cannot be opened for writing.
\<close>

theorem copy_fails_exactly_when_counterexample:
  "files (before_copy nested_toolchain fresh_checkout) [''proj'', ''package.json'']
     = Some (File example_manifest) \<and>
   files fresh_checkout [''proj'', ''dist''] = None \<and>
   files (before_copy nested_toolchain fresh_checkout) [''proj'', ''dist''] = Some Dir \<and>
   fst (step_copy (before_copy nested_toolchain fresh_checkout)) = Inl IsADirectoryError \<and>
   fst (publish_py nested_toolchain fresh_checkout) = Inl IsADirectoryError"
  by (simp add: publish_py_eq before_copy_eq step_copy_eq fresh_checkout_def
      nested_toolchain_def rmtree_files_def)

text \<open>
  C7, amended. The copy fails if the manifest is missing or the output directory does
  not exist. These are not its only failures (a directory at \<^verbatim>\<open>dist/package.json\<close> is
  another), and no condition is claimed under which it must succeed. A copy that has
  succeeded found a regular file \<^verbatim>\<open>package.json\<close> and a directory \<^verbatim>\<open>dist\<close>, and has made
  the entry \<^verbatim>\<open>dist/package.json\<close> the manifest of the project root, under the same file
  name, with nothing else in the file system changed.
\<close>

theorem copy_step_outcome:
  "(files s (cwd s @ [''package.json'']) = None \<or> files s (cwd s @ [''dist'']) = None
      \<longrightarrow> (\<exists>e. fst (step_copy s) = Inl e)) \<and>
   (\<forall>v. fst (step_copy s) = Inr v \<longrightarrow>
      v = ''dist/package.json'' \<and>
      (\<exists>b. files s (cwd s @ [''package.json'']) = Some (File b)) \<and>
      files s (cwd s @ [''dist'']) = Some Dir \<and>
      files s (cwd s @ [''dist'', ''package.json'']) \<noteq> Some Dir \<and>
      files (snd (step_copy s)) =
        (files s)(cwd s @ [''dist'', ''package.json''] := files s (cwd s @ [''package.json''])))"
proof -
  have a: "files s (cwd s @ [''package.json'']) = None \<or> files s (cwd s @ [''dist'']) = None
      \<longrightarrow> (\<exists>e. fst (step_copy s) = Inl e)"
    by (auto simp add: step_copy_eq split: option.splits node.splits)
  have b: "v = ''dist/package.json'' \<and>
      (\<exists>b. files s (cwd s @ [''package.json'']) = Some (File b)) \<and>
      files s (cwd s @ [''dist'']) = Some Dir \<and>
      files s (cwd s @ [''dist'', ''package.json'']) \<noteq> Some Dir \<and>
      files (snd (step_copy s)) =
        (files s)(cwd s @ [''dist'', ''package.json''] := files s (cwd s @ [''package.json'']))"
    if ok: "fst (step_copy s) = Inr v" for v
  proof -
    from step_copy_ok [OF ok] obtain b where
      m: "files s (cwd s @ [''package.json'']) = Some (File b)" and
      d: "files s (cwd s @ [''dist'']) = Some Dir" and
      f: "files (snd (step_copy s)) = (files s)(cwd s @ [''dist'', ''package.json''] \<mapsto> File b)"
      by blast
    from step_copy_ok_needs [OF ok] m d f show ?thesis
      by simp
  qed
  from a b show ?thesis by blast
qed

theorem copy_step_outcome_witness:
  "files no_manifest (cwd no_manifest @ [''package.json'']) = None \<and>
   fst (step_copy no_manifest) = Inl FileNotFoundError \<and>
   fst (step_copy (before_copy toolchain fresh_checkout)) = Inr ''dist/package.json'' \<and>
   files (snd (step_copy (before_copy toolchain fresh_checkout))) [''proj'', ''dist'', ''package.json'']
     = Some (File example_manifest) \<and>
   files (snd (step_copy (before_copy toolchain fresh_checkout))) [''proj'', ''package.json'']
     = Some (File example_manifest)"
proof -
  have m: "files no_manifest (cwd no_manifest @ [''package.json'']) = None"
    by (simp add: no_manifest_def)
  have e: "fst (step_copy no_manifest) = Inl FileNotFoundError"
    by (simp add: step_copy_eq no_manifest_def)
  have k: "fst (step_copy (before_copy toolchain fresh_checkout)) = Inr ''dist/package.json''"
    by (simp add: step_copy_eq before_copy_eq fresh_checkout_def toolchain_def rmtree_files_def)
  have c: "cwd (before_copy toolchain fresh_checkout) = [''proj'']"
    by (simp add: before_copy_eq fresh_checkout_def)
  have p: "files (before_copy toolchain fresh_checkout) [''proj'', ''package.json'']
      = Some (File example_manifest)"
    by (simp add: before_copy_eq fresh_checkout_def toolchain_def rmtree_files_def)
  from copy_step_outcome [of no_manifest] m have "\<exists>e. fst (step_copy no_manifest) = Inl e"
    by blast
  moreover from copy_step_outcome [of "before_copy toolchain fresh_checkout"] k
  have "files (snd (step_copy (before_copy toolchain fresh_checkout))) =
      (files (before_copy toolchain fresh_checkout))([''proj'', ''dist'', ''package.json''] :=
         files (before_copy toolchain fresh_checkout) [''proj'', ''package.json''])"
    by (simp add: c)
  ultimately show ?thesis
    using m e k p by simp
qed

text \<open>
  C8 as stated: the publish step changes the working directory of the process, and the
  publish invocation is not gated on the success of the steps before it. In the example
  run the publish program has run in \<^verbatim>\<open>/proj/dist\<close> while the working directory of the
  driver is \<^verbatim>\<open>/proj\<close> as before: the \<^verbatim>\<open>cd\<close> is part of the command line of the child
  shell. And in the project without a manifest the copy fails and the publish command
  line is never handed to a shell.
\<close>

theorem process_cwd_counterexample:
  "Exec [''npm'', ''publish'', ''--access'', ''public''] [''proj'', ''dist'']
     \<in> set (trace (snd (publish_py toolchain fresh_checkout))) \<and>
   cwd fresh_checkout = [''proj''] \<and>
   cwd (snd (publish_py toolchain fresh_checkout)) = [''proj''] \<and>
   cwd (snd (publish_py toolchain fresh_checkout)) \<noteq> [''proj'', ''dist''] \<and>
   fst (step_copy (before_copy toolchain no_manifest)) = Inl FileNotFoundError \<and>
   System publish_cmd \<notin> set (trace (snd (publish_py toolchain no_manifest)))"
proof -
  have a: "Exec [''npm'', ''publish'', ''--access'', ''public''] [''proj'', ''dist'']
     \<in> set (trace (snd (publish_py toolchain fresh_checkout)))"
    by (simp add: publish_py_eq before_copy_eq step_copy_eq step_publish_eq fresh_checkout_def
      toolchain_def rmtree_files_def npm_argv_def)
  have b: "cwd (snd (publish_py toolchain fresh_checkout)) = [''proj'']"
    by (simp add: publish_py_cwd fresh_checkout_def)
  have c: "fst (step_copy (before_copy toolchain no_manifest)) = Inl FileNotFoundError"
    by (simp add: before_copy_eq step_copy_eq no_manifest_def toolchain_def rmtree_files_def)
  have r: "fst (publish_py toolchain no_manifest) = Inl FileNotFoundError"
    using c by (simp add: run_raises_iff)
  have t: "trace no_manifest = []"
    by (simp add: no_manifest_def)
  have d: "System publish_cmd \<notin> set (trace (snd (publish_py toolchain no_manifest)))"
    using publish_py_trace [of no_manifest toolchain]
    by (simp add: r t new_events_def publish_cmd_text)
  from a b c d show ?thesis
    by (simp add: fresh_checkout_def)
qed

text \<open>
  C8, amended. The publish step hands the one command line
  \<^verbatim>\<open>cd dist/ && npm publish --access public\<close> to a child shell. The working directory of
  the driver process is the same after the step, and after the run, as before. With an
  output directory the shell starts the publish program, with its public-access flag,
  in that directory. The step is reached exactly when the copy has not raised, and the
  exit status of the build has no part in that.
\<close>

theorem publish_in_child_shell:
  "cwd (snd (step_publish env s)) = cwd s \<and>
   cwd (snd (publish_py env s)) = cwd s \<and>
   (files s (cwd s @ [''dist'']) = Some Dir \<longrightarrow>
      new_events s (snd (step_publish env s)) =
        [System ''cd dist/ && npm publish --access public'',
         Exec [''npm'', ''publish'', ''--access'', ''public''] (cwd s @ [''dist''])]) \<and>
   (System publish_cmd \<in> set (new_events s (snd (publish_py env s))))
      = (\<exists>v. fst (step_copy (before_copy env s)) = Inr v) \<and>
   (System publish_cmd \<in> set (new_events s (snd (publish_py (with_build_status k env) s))))
      = (System publish_cmd \<in> set (new_events s (snd (publish_py env s))))"
proof -
  have a: "cwd (snd (step_publish env s)) = cwd s"
    by (simp add: step_publish_eq)
  have b: "files s (cwd s @ [''dist'']) = Some Dir \<longrightarrow>
      new_events s (snd (step_publish env s)) =
        [System ''cd dist/ && npm publish --access public'',
         Exec [''npm'', ''publish'', ''--access'', ''public''] (cwd s @ [''dist''])]"
    by (simp add: step_publish_eq new_events_def publish_cmd_text npm_argv_def)
  have c: "(System publish_cmd \<in> set (new_events s (snd (publish_py env s))))
      = (\<exists>v. fst (step_copy (before_copy env s)) = Inr v)"
  proof (cases "fst (step_copy (before_copy env s))")
    case (Inl e)
    then have "fst (publish_py env s) = Inl e" by (simp add: run_raises_iff)
    with Inl show ?thesis by (simp add: publish_py_trace publish_cmd_text)
  next
    case (Inr v)
    then have "\<exists>rc. fst (publish_py env s) = Inr rc"
      by (cases "fst (publish_py env s)") (simp_all add: run_raises_iff)
    with Inr show ?thesis by (auto simp add: publish_py_trace)
  qed
  from a b c show ?thesis
    by (simp only: publish_py_cwd build_status_ignored simp_thms)
qed

theorem publish_in_child_shell_witness:
  "files (before_copy toolchain fresh_checkout) [''proj'', ''dist''] = Some Dir \<and>
   new_events (before_copy toolchain fresh_checkout)
      (snd (step_publish toolchain (before_copy toolchain fresh_checkout))) =
     [System ''cd dist/ && npm publish --access public'',
      Exec [''npm'', ''publish'', ''--access'', ''public''] [''proj'', ''dist'']] \<and>
   cwd (snd (step_publish toolchain (before_copy toolchain fresh_checkout))) = [''proj'']"
proof -
  have d: "files (before_copy toolchain fresh_checkout) [''proj'', ''dist''] = Some Dir"
    by (simp add: before_copy_eq fresh_checkout_def toolchain_def rmtree_files_def)
  have c: "cwd (before_copy toolchain fresh_checkout) = [''proj'']"
    by (simp add: before_copy_eq fresh_checkout_def)
  from publish_in_child_shell [of toolchain "before_copy toolchain fresh_checkout"] d show ?thesis
    by (simp add: c)
qed

text \<open>
  C9. Two runs in succession, neither raising: the manifest copy that the second run
  leaves in the output directory is byte for byte the one the first run left, the
  manifest of the project root. The external programs are taken to leave the manifests
  alone: the compiler the one of the project root, the registry client both.
\<close>

theorem second_run_same_manifest_copy:
  assumes ok1: "fst (publish_py env s) = Inr rc1"
    and ok2: "fst (publish_py env (snd (publish_py env s))) = Inr rc2"
    and kt: "keeps env [''tsc''] (cwd s) (cwd s @ [''package.json''])"
    and kn: "keeps env npm_argv (cwd s @ [''dist'']) (cwd s @ [''package.json''])"
    and kd: "keeps env npm_argv (cwd s @ [''dist'']) (cwd s @ [''dist'', ''package.json''])"
  shows "files (snd (publish_py env (snd (publish_py env s)))) (cwd s @ [''dist'', ''package.json''])
           = files (snd (publish_py env s)) (cwd s @ [''dist'', ''package.json'']) \<and>
         files (snd (publish_py env s)) (cwd s @ [''dist'', ''package.json''])
           = files s (cwd s @ [''package.json''])"
proof -
  let ?s1 = "snd (publish_py env s)"
  have c1: "cwd ?s1 = cwd s"
    by (rule publish_py_cwd)
  from run_ok_files [OF ok1] obtain b where
    m: "files (before_copy env s) (cwd s @ [''package.json'']) = Some (File b)" and
    f: "files ?s1 =
          snd (env npm_argv (cwd s @ [''dist''])
            ((files (before_copy env s))(cwd s @ [''dist'', ''package.json''] \<mapsto> File b)))"
    by blast
  have m0: "files s (cwd s @ [''package.json'']) = Some (File b)"
    using before_copy_manifest [OF kt] m by simp
  have d1: "files ?s1 (cwd s @ [''dist'', ''package.json'']) = Some (File b)"
    using kd by (simp add: f keeps_def)
  have m1: "files ?s1 (cwd s @ [''package.json'']) = Some (File b)"
    using kn m by (simp add: f keeps_def)
  from run_ok_files [OF ok2] obtain b' where
    m': "files (before_copy env ?s1) (cwd s @ [''package.json'']) = Some (File b')" and
    f': "files (snd (publish_py env ?s1)) =
          snd (env npm_argv (cwd s @ [''dist''])
            ((files (before_copy env ?s1))(cwd s @ [''dist'', ''package.json''] \<mapsto> File b')))"
    by (auto simp add: c1)
  have "files (before_copy env ?s1) (cwd s @ [''package.json'']) = files ?s1 (cwd s @ [''package.json''])"
    using before_copy_manifest [of env ?s1] kt by (simp add: c1)
  with m' m1 have bb: "b' = b" by simp
  have d2: "files (snd (publish_py env ?s1)) (cwd s @ [''dist'', ''package.json'']) = Some (File b)"
    using kd by (simp add: f' keeps_def bb)
  from d1 d2 m0 show ?thesis by simp
qed

lemma toolchain_keeps_manifest: "keeps toolchain [''tsc''] c (c @ [''package.json''])"
  by (simp add: keeps_def toolchain_def)

lemma fresh_second_run_ok:
  "fst (publish_py toolchain (snd (publish_py toolchain fresh_checkout))) = Inr 0"
  by (simp add: publish_py_eq before_copy_eq step_copy_eq step_publish_eq fresh_checkout_def
      toolchain_def rmtree_files_def npm_argv_def blocked_def)

theorem second_run_same_manifest_copy_witness:
  "fst (publish_py toolchain fresh_checkout) = Inr 0 \<and>
   fst (publish_py toolchain (snd (publish_py toolchain fresh_checkout))) = Inr 0 \<and>
   keeps toolchain [''tsc''] [''proj''] [''proj'', ''package.json''] \<and>
   keeps toolchain npm_argv [''proj'', ''dist''] [''proj'', ''package.json''] \<and>
   keeps toolchain npm_argv [''proj'', ''dist''] [''proj'', ''dist'', ''package.json''] \<and>
   files (snd (publish_py toolchain (snd (publish_py toolchain fresh_checkout))))
       [''proj'', ''dist'', ''package.json'']
     = files (snd (publish_py toolchain fresh_checkout)) [''proj'', ''dist'', ''package.json''] \<and>
   files (snd (publish_py toolchain fresh_checkout)) [''proj'', ''dist'', ''package.json'']
     = Some (File example_manifest)"
proof -
  have c: "cwd fresh_checkout = [''proj'']"
    by (simp add: fresh_checkout_def)
  have m: "files fresh_checkout [''proj'', ''package.json''] = Some (File example_manifest)"
    by (simp add: fresh_checkout_def)
  have kt: "keeps toolchain [''tsc''] [''proj''] [''proj'', ''package.json'']"
    using toolchain_keeps_manifest [of "[''proj'']"] by simp
  from second_run_same_manifest_copy [of toolchain fresh_checkout 0 0]
    fresh_run_ok fresh_second_run_ok kt toolchain_keeps
  have "files (snd (publish_py toolchain (snd (publish_py toolchain fresh_checkout))))
       [''proj'', ''dist'', ''package.json'']
     = files (snd (publish_py toolchain fresh_checkout)) [''proj'', ''dist'', ''package.json''] \<and>
   files (snd (publish_py toolchain fresh_checkout)) [''proj'', ''dist'', ''package.json'']
     = files fresh_checkout [''proj'', ''package.json'']"
    by (simp add: c)
  with fresh_run_ok fresh_second_run_ok kt toolchain_keeps m show ?thesis
    by simp
qed

text \<open>
  C10. The publish program is started exactly when the \<^verbatim>\<open>cd\<close> of the command line
  succeeds, that is when the output directory exists as the publish step starts. Without
  it the shell stops after the failed \<^verbatim>\<open>cd\<close> with a status that is not 0: no program is
  started and the file system is as before. (Within a whole run the step is reached
  only after a successful copy, which needs the directory; the property is about the
  statement in any state.)
\<close>

theorem publish_needs_output_directory:
  "(files s (cwd s @ [''dist'']) \<noteq> Some Dir \<longrightarrow>
      fst (step_publish env s) \<noteq> Inr 0 \<and>
      new_events s (snd (step_publish env s)) = [System ''cd dist/ && npm publish --access public''] \<and>
      files (snd (step_publish env s)) = files s) \<and>
   (\<exists>c. Exec npm_argv c \<in> set (new_events s (snd (step_publish env s))))
     = (files s (cwd s @ [''dist'']) = Some Dir)"
  by (simp add: step_publish_eq new_events_def publish_cmd_text npm_argv_def)

theorem publish_needs_output_directory_witness:
  "files fresh_checkout (cwd fresh_checkout @ [''dist'']) \<noteq> Some Dir \<and>
   fst (step_publish toolchain fresh_checkout) \<noteq> Inr 0 \<and>
   new_events fresh_checkout (snd (step_publish toolchain fresh_checkout))
     = [System ''cd dist/ && npm publish --access public''] \<and>
   Exec npm_argv [''proj'', ''dist'']
     \<notin> set (new_events fresh_checkout (snd (step_publish toolchain fresh_checkout)))"
proof -
  have h: "files fresh_checkout (cwd fresh_checkout @ [''dist'']) \<noteq> Some Dir"
    by (simp add: fresh_checkout_def)
  from publish_needs_output_directory [of fresh_checkout toolchain] h show ?thesis
    by auto
qed

end
